theory Spec2Isabelle
  imports Main "HOL-Library.AList" "HOL-Library.Sublist"
begin

section \<open>Data model of the entitlement documents (models/Entitlement.js)\<close>

text \<open>
  Dates are milliseconds since the epoch. JSON numbers are taken to be integers, as the
  counters of the service are (defaults 0, 1000, 10, ...; the default increment is 1);
  fractional numbers and \<open>NaN\<close> are outside this model, except that a \<open>NaN\<close> produced by
  arithmetic on a missing key is the value \<open>None\<close> of \<open>js_minus\<close>.
  A JSON object is an association list, read with \<open>map_of\<close> (a missing key is JavaScript's
  \<open>undefined\<close>) and written with \<open>AList.update\<close> (an existing key keeps its place, a new
  key goes last).
\<close>

type_synonym time = int

type_synonym 'v obj = "(string \<times> 'v) list"

datatype mixed = MBool bool | MNum int | MStr string

record feature =
  f_name :: string
  f_enabled :: bool
  f_config :: "mixed obj"
  f_limits :: "int obj"

record module =
  m_name :: string
  m_enabled :: bool
  m_features :: "feature list"
  m_limits :: "int obj"
  m_config :: "mixed obj"

record addOn =
  addOnId :: string
  a_name :: string
  a_enabled :: bool
  expiresAt :: "time option"

datatype audit_action = created | updated | activated | deactivated | quota_exceeded

text \<open>An audit entry as a caller may send it inside a request body.\<close>

record audit_input =
  ai_action :: audit_action
  ai_performedBy :: string
  ai_performedAt :: "time option"
  ai_changes :: "mixed obj"
  ai_reason :: string

text \<open>
  The body of \<open>POST /entitlements\<close> and of \<open>PATCH /entitlements/:id\<close>: every schema path
  is optional in the JSON; \<open>None\<close> is a key the body does not have. Both handlers spread
  the whole body into the document, so every top-level schema path is listed, \<open>audit\<close>
  and \<open>usage\<close> included. \<open>tenantId\<close> is the string as sent, before the cast to an
  ObjectId. This record is the bodies whose keys are top-level schema paths: a key that is
  a dotted path (\<open>"audit.0.reason"\<close>) or an update operator (\<open>$pop\<close>, \<open>$pull\<close>, \<open>$inc\<close>),
  which \<open>findByIdAndUpdate\<close> honours as well, has no value here, and nothing below
  speaks for such a body.
\<close>

record body =
  b_tenantId :: "string option"
  b_tenantType :: "string option"
  b_planId :: "string option"
  b_addOns :: "addOn list option"
  b_modules :: "module list option"
  b_quotas :: "int obj option"
  b_usage :: "int obj option"
  b_isActive :: "bool option"
  b_effectiveFrom :: "time option"
  b_effectiveUntil :: "time option option"
  b_notes :: "string option"
  b_audit :: "audit_input list option"

text \<open>The bodies of the module, feature handlers (the destructured keys).\<close>

record module_body =
  mb_enabled :: "bool option"
  mb_features :: "feature list option"
  mb_limits :: "int obj option"
  mb_config :: "mixed obj option"

record feature_body =
  fb_enabled :: "bool option"
  fb_config :: "mixed obj option"
  fb_limits :: "int obj option"

text \<open>
  The \<open>changes\<close> argument of \<open>addAuditEntry\<close>, one constructor per call site:
  \<open>req.body\<close> (create, update), \<open>{module, changes: req.body}\<close>,
  \<open>{module, feature, changes: req.body}\<close>, \<open>{quotas: req.body}\<close>, \<open>{resource, amount}\<close>;
  \<open>GivenChanges\<close> is the map of an entry that came in a request body.
\<close>

datatype changes =
    BodyChanges body
  | ModuleChanges string module_body
  | FeatureChanges string string feature_body
  | QuotaChanges "int obj"
  | UsageChanges string int
  | GivenChanges "mixed obj"

record audit_entry =
  action :: audit_action
  performedBy :: string
  changes :: changes
  reason :: string
  performedAt :: time

record entitlement =
  tenantId :: string
  tenantType :: string
  planId :: string
  addOns :: "addOn list"
  modules :: "module list"
  quotas :: "int obj"
  usage :: "int obj"
  isActive :: bool
  effectiveFrom :: time
  effectiveUntil :: "time option"
  createdBy :: string
  lastModifiedBy :: "string option"
  version :: string
  md_notes :: "string option"
  audit :: "audit_entry list"
  createdAt :: time
  updatedAt :: time

text \<open>
  The collection: documents in insertion order. A document's \<open>_id\<close> is its position
  (documents are never deleted, so a position names one document for ever).
\<close>

type_synonym store = "entitlement list"

text \<open>
  Failures, named as the interface names them. The handlers answer \<open>NotFound\<close> with 404
  and a message, a validation failure and a duplicate key (the unique index on
  \<open>(tenantId, tenantType)\<close>) with 400, and an exhausted quota with 429 carrying
  \<open>quotas[resource]\<close> and \<open>usage[resource]\<close> as the document has them. \<open>CastError\<close> is
  a query that cannot be sent because a value of its filter does not cast (an id that is
  no ObjectId, an invalid date); the handlers answer it with 500.
\<close>

datatype error =
    NotFound string
  | ValidationError
  | DuplicateTenant
  | QuotaExceeded string "int option" "int option"
  | CastError

record usage_reply =
  ur_resource :: string
  ur_usage :: "int option"
  ur_quota :: "int option"
  ur_remaining :: "int option"

record permission_reply =
  hasPermission :: bool
  pr_module :: string
  pr_feature :: "string option"
  pr_action :: "string option"
  pr_isModuleEnabled :: bool
  pr_isFeatureEnabled :: bool
  pr_quota :: "int obj"
  pr_usage :: "int obj"

datatype reply =
    EntitlementReply entitlement
  | ModuleReply module
  | FeatureReply feature
  | QuotasReply "int obj"
  | UsageReply usage_reply
  | PermissionReply permission_reply
  | NoEntitlementReply

type_synonym result = "error + reply"

section \<open>Schema constants\<close>

definition module_names :: "string list" where
  "module_names =
     [''forms'', ''submissions'', ''staff'', ''discounts'', ''notifications'',
      ''reports'', ''analytics'', ''translations'', ''integrations'', ''exports'',
      ''audit'', ''settings'', ''billing'', ''rbac'', ''organizations'', ''brands'']"

definition tenant_types :: "string list" where
  "tenant_types = [''organization'', ''business'', ''franchise'']"

definition default_quotas :: "int obj" where
  "default_quotas =
     [(''submissions'', 1000), (''forms'', 10), (''staff'', 5),
      (''notifications'', 100), (''exports'', 10), (''integrations'', 3)]"

definition default_usage :: "int obj" where
  "default_usage =
     [(''submissions'', 0), (''forms'', 0), (''staff'', 0),
      (''notifications'', 0), (''exports'', 0), (''integrations'', 0)]"

text \<open>The keys of the schema's \<open>quotas\<close> and \<open>usage\<close> objects.\<close>

definition resource_names :: "string list" where
  "resource_names =
     [''submissions'', ''forms'', ''staff'', ''notifications'', ''exports'', ''integrations'']"

text \<open>
  Milliseconds in a day, and the largest time value of a JavaScript \<open>Date\<close>: a date
  further than this from the epoch is an invalid date.
\<close>

definition day_ms :: int where
  "day_ms = 86400000"

definition max_time :: int where
  "max_time = 8640000000000000"

section \<open>JavaScript helpers\<close>

text \<open>\<open>x || 0\<close> on a number that may be missing: \<open>undefined\<close> and \<open>0\<close> are falsy.\<close>

definition js_or0 :: "int option \<Rightarrow> int" where
  "js_or0 v = (case v of None \<Rightarrow> 0 | Some x \<Rightarrow> if x = 0 then 0 else x)"

text \<open>\<open>a - b\<close> where either side may be \<open>undefined\<close>: the result is then \<open>NaN\<close>.\<close>

definition js_minus :: "int option \<Rightarrow> int option \<Rightarrow> int option" where
  "js_minus a b =
     (case a of None \<Rightarrow> None
      | Some x \<Rightarrow> (case b of None \<Rightarrow> None | Some y \<Rightarrow> Some (x - y)))"

text \<open>\<open>Array.prototype.findIndex\<close>; \<open>None\<close> is the source's \<open>-1\<close>.\<close>

fun findIndex :: "('a \<Rightarrow> bool) \<Rightarrow> 'a list \<Rightarrow> nat option" where
  "findIndex P [] = None"
| "findIndex P (x # xs) =
     (if P x then Some 0 else (case findIndex P xs of None \<Rightarrow> None | Some i \<Rightarrow> Some (Suc i)))"

text \<open>Object spread \<open>{...a, ...b}\<close>: the keys of \<open>b\<close> are written over \<open>a\<close> in order.\<close>

definition spread :: "'v obj \<Rightarrow> 'v obj \<Rightarrow> 'v obj" where
  "spread a b = foldl (\<lambda>acc kv. AList.update (fst kv) (snd kv) acc) a b"

text \<open>A string in a condition: the empty string is falsy, a missing one too.\<close>

definition truthy :: "string option \<Rightarrow> bool" where
  "truthy v = (case v of None \<Rightarrow> False | Some s \<Rightarrow> s \<noteq> [])"

definition or_else :: "'a option \<Rightarrow> 'a \<Rightarrow> 'a" where
  "or_else v d = (case v of None \<Rightarrow> d | Some x \<Rightarrow> x)"

section \<open>What the schema does to a value\<close>

text \<open>
  The cast of a string to an ObjectId (\<open>tenantId\<close>): a string of 24 hexadecimal digits
  is one, written in lower case from then on; any other string fails to cast. (A driver
  that also takes a string of 12 bytes for an ObjectId is not what is modelled here.)
\<close>

definition hex_digits :: string where
  "hex_digits = ''0123456789abcdefABCDEF''"

definition lower_hex :: "char \<Rightarrow> char" where
  "lower_hex c =
     or_else (map_of [(CHR ''A'', CHR ''a''), (CHR ''B'', CHR ''b''), (CHR ''C'', CHR ''c''),
                      (CHR ''D'', CHR ''d''), (CHR ''E'', CHR ''e''), (CHR ''F'', CHR ''f'')] c) c"

definition cast_object_id :: "string \<Rightarrow> string option" where
  "cast_object_id v =
     (if length v = 24 \<and> list_all (\<lambda>c. c \<in> set hex_digits) v
      then Some (map lower_hex v) else None)"

text \<open>
  A key of a schema \<open>Map\<close> (\<open>config\<close>, \<open>limits\<close>, the \<open>changes\<close> of an audit entry): it
  must not start with \<open>$\<close>, contain a dot or be a reserved property name.
\<close>

definition valid_map_key :: "string \<Rightarrow> bool" where
  "valid_map_key k =
     ((case k of [] \<Rightarrow> True | c # cs \<Rightarrow> c \<noteq> CHR ''$'') \<and> CHR ''.'' \<notin> set k \<and>
      k \<notin> set [''__proto__'', ''constructor'', ''prototype''])"

definition valid_map :: "'v obj \<Rightarrow> bool" where
  "valid_map m = list_all (\<lambda>kv. valid_map_key (fst kv)) m"

text \<open>
  The schema is strict: of an object given for \<open>quotas\<close> or \<open>usage\<close> only the keys the
  schema declares are kept.
\<close>

definition strict :: "int obj \<Rightarrow> int obj" where
  "strict al = filter (\<lambda>kv. fst kv \<in> set resource_names) al"

section \<open>Instance methods\<close>

definition isModuleEnabled :: "entitlement \<Rightarrow> string \<Rightarrow> bool" where
  "isModuleEnabled e moduleName =
     (case find (\<lambda>m. m_name m = moduleName) (modules e) of
        None \<Rightarrow> False
      | Some m \<Rightarrow> m_enabled m)"

definition isFeatureEnabled :: "entitlement \<Rightarrow> string \<Rightarrow> string \<Rightarrow> bool" where
  "isFeatureEnabled e moduleName featureName =
     (case find (\<lambda>m. m_name m = moduleName) (modules e) of
        None \<Rightarrow> False
      | Some m \<Rightarrow>
          if \<not> m_enabled m then False
          else (case find (\<lambda>f. f_name f = featureName) (m_features m) of
                  None \<Rightarrow> False
                | Some f \<Rightarrow> f_enabled f))"

definition checkQuota :: "entitlement \<Rightarrow> string \<Rightarrow> bool" where
  "checkQuota e resource =
     (let quota = js_or0 (map_of (quotas e) resource);
          used = js_or0 (map_of (usage e) resource)
      in used < quota)"

text \<open>
  \<open>save\<close> of a document loaded from the collection: the pre-save hook stamps
  \<open>updatedAt\<close>, then the document is written at its \<open>_id\<close>. It returns the document as
  the caller now holds it and the collection.
\<close>

definition save :: "store \<Rightarrow> nat \<Rightarrow> entitlement \<Rightarrow> time \<Rightarrow> entitlement \<times> store" where
  "save s i doc now = (let d = doc\<lparr>updatedAt := now\<rparr> in (d, s[i := d]))"

definition incrementUsage ::
  "store \<Rightarrow> nat \<Rightarrow> entitlement \<Rightarrow> string \<Rightarrow> int \<Rightarrow> time \<Rightarrow> entitlement \<times> store" where
  "incrementUsage s i doc resource amount now =
     save s i
       (doc\<lparr>usage := AList.update resource (js_or0 (map_of (usage doc) resource) + amount)
                        (usage doc)\<rparr>)
       now"

definition addAuditEntry ::
  "store \<Rightarrow> nat \<Rightarrow> entitlement \<Rightarrow> audit_action \<Rightarrow> string \<Rightarrow> changes \<Rightarrow> time
     \<Rightarrow> entitlement \<times> store" where
  "addAuditEntry s i doc act by ch now =
     save s i
       (doc\<lparr>audit := audit doc @
          [\<lparr>action = act, performedBy = by, changes = ch, reason = [], performedAt = now\<rparr>]\<rparr>)
       now"

section \<open>Static methods\<close>

definition findById :: "store \<Rightarrow> nat \<Rightarrow> entitlement option" where
  "findById s i = (if i < length s then Some (s ! i) else None)"

text \<open>
  \<open>getByTenant\<close>: \<open>findOne({tenantId, tenantType, isActive: true})\<close>; the filter's
  \<open>tenantId\<close> is cast to an ObjectId first.
\<close>

definition getByTenant :: "store \<Rightarrow> string \<Rightarrow> string \<Rightarrow> error + entitlement option" where
  "getByTenant s tenant tty =
     (case cast_object_id tenant of
        None \<Rightarrow> Inl CastError
      | Some tid \<Rightarrow> Inr (find (\<lambda>e. tenantId e = tid \<and> tenantType e = tty \<and> isActive e) s))"

text \<open>
  \<open>futureDate.setDate(futureDate.getDate() + days)\<close> moves the date by \<open>days\<close> days of
  the server's local calendar: the same local time of day, \<open>days\<close> days on. As an instant
  that is \<open>days\<close> times 24 hours later, corrected by the change of the zone's offset
  between the two dates (an hour across a daylight-saving switch, nothing in a zone with
  a fixed offset). The zone is the server's and not in the sources: \<open>zone now days\<close> is
  that correction in milliseconds, a parameter. When the result is further from the epoch
  than a \<open>Date\<close> reaches, the date is invalid (\<open>None\<close>).
\<close>

type_synonym zone = "time \<Rightarrow> int \<Rightarrow> int"

definition setDate_plus :: "zone \<Rightarrow> time \<Rightarrow> int \<Rightarrow> time option" where
  "setDate_plus z now days =
     (let t = now + days * day_ms + z now days
      in if abs t \<le> max_time then Some t else None)"

text \<open>
  \<open>getExpiringSoon\<close>: the query \<open>{effectiveUntil: {$lte: futureDate, $gt: new Date()},
  isActive: true}\<close>. The number of days is an integer or \<open>NaN\<close> (what \<open>parseInt\<close> gives
  the handler), \<open>NaN\<close> being \<open>None\<close>; with \<open>NaN\<close>, or days that lead out of the range of
  dates, \<open>futureDate\<close> is an invalid date and the query fails in the cast. A \<open>null\<close>
  \<open>effectiveUntil\<close> matches no date comparison. Both readings of the clock in one call
  are the same instant \<open>now\<close>.
\<close>

definition getExpiringSoon ::
  "zone \<Rightarrow> store \<Rightarrow> int option \<Rightarrow> time \<Rightarrow> error + entitlement list" where
  "getExpiringSoon z s days now =
     (case days of
        None \<Rightarrow> Inl CastError
      | Some d \<Rightarrow>
          (case setDate_plus z now d of
             None \<Rightarrow> Inl CastError
           | Some futureDate \<Rightarrow>
               Inr (filter (\<lambda>e. (case effectiveUntil e of
                                     None \<Rightarrow> False
                                   | Some u \<Rightarrow> u \<le> futureDate \<and> now < u) \<and> isActive e) s)))"

text \<open>A fixed-offset zone, UTC for one.\<close>

definition fixed_zone :: zone where
  "fixed_zone now days = 0"

section \<open>Request handlers (index.js)\<close>

text \<open>
  Each handler takes the collection, the request (path parameters and body), the
  authenticated user id and the clock, and returns the answer with the collection as the
  handler leaves it. Authentication and the role check stand before the handlers and are
  not part of them.
\<close>

text \<open>
  Schema validation of the nested documents: a feature needs a name, a module a name of
  the catalogue, and every \<open>Map\<close> keys it accepts.
\<close>

definition valid_feature :: "feature \<Rightarrow> bool" where
  "valid_feature f = (f_name f \<noteq> [] \<and> valid_map (f_config f) \<and> valid_map (f_limits f))"

definition valid_module :: "module \<Rightarrow> bool" where
  "valid_module m =
     (m_name m \<in> set module_names \<and> list_all valid_feature (m_features m) \<and>
      valid_map (m_limits m) \<and> valid_map (m_config m))"

definition valid_modules :: "module list \<Rightarrow> bool" where
  "valid_modules ms = list_all valid_module ms"

definition valid_audit :: "audit_input list \<Rightarrow> bool" where
  "valid_audit xs = list_all (\<lambda>a. valid_map (ai_changes a)) xs"

text \<open>An audit entry of a request body, cast by the schema (\<open>performedAt\<close> defaults to now).\<close>

definition cast_audit :: "time \<Rightarrow> audit_input \<Rightarrow> audit_entry" where
  "cast_audit now a =
     \<lparr>action = ai_action a, performedBy = ai_performedBy a,
      changes = GivenChanges (ai_changes a), reason = ai_reason a,
      performedAt = or_else (ai_performedAt a) now\<rparr>"

text \<open>Some document of the list has the tenant pair \<open>(tid, tty)\<close>.\<close>

definition tenant_taken :: "entitlement list \<Rightarrow> string \<Rightarrow> string \<Rightarrow> bool" where
  "tenant_taken docs tid tty = list_ex (\<lambda>e. tenantId e = tid \<and> tenantType e = tty) docs"

text \<open>
  Modelled from the spec: the insert of a document under the unique index on
  \<open>(tenantId, tenantType)\<close>. The schema declares the index
  (\<open>entitlementSchema.index({ tenantId: 1, tenantType: 1 }, { unique: true })\<close>); the
  database that enforces it on every write is not in the sources. The spec: "this pair is
  a uniqueness invariant enforced at the store level (at most one active-or-inactive
  record per pair at any logical time)", "\<open>create\<close> rejects a second record for an existing
  (tenantId, tenantType) pair", and \<open>DuplicateTenant\<close> is the "uniqueness violation on
  create". So the insert of a document whose pair another document has is refused with
  \<open>DuplicateTenant\<close> and writes nothing.
\<close>

definition store_insert :: "store \<Rightarrow> entitlement \<Rightarrow> error + store" where
  "store_insert s doc =
     (if tenant_taken s (tenantId doc) (tenantType doc) then Inl DuplicateTenant
      else Inr (s @ [doc]))"

text \<open>
  Modelled from the spec: the write of an updated document under the same index, which
  the database enforces on updates as on inserts ("at most one record per pair at any
  logical time"): the update that would give the document at position \<open>i\<close> the pair of
  another document is refused with \<open>DuplicateTenant\<close> and writes nothing.
\<close>

definition store_replace :: "store \<Rightarrow> nat \<Rightarrow> entitlement \<Rightarrow> error + store" where
  "store_replace s i doc =
     (if tenant_taken (take i s @ drop (Suc i) s) (tenantId doc) (tenantType doc)
      then Inl DuplicateTenant
      else Inr (s[i := doc]))"

text \<open>
  \<open>POST /entitlements\<close>: \<open>new Entitlement({...req.body, metadata: {..., createdBy}})\<close>
  with the schema defaults, \<open>save\<close> (validation, then the insert), then
  \<open>addAuditEntry('created', userId, req.body)\<close>. Validation: \<open>tenantId\<close> is required and
  must cast to an ObjectId, \<open>tenantType\<close> is required and of the enum, \<open>planId\<close> and
  \<open>metadata.createdBy\<close> (the user id) are required strings, which an empty string is not,
  and the nested documents must be valid.
\<close>

definition valid_create :: "body \<Rightarrow> string \<Rightarrow> bool" where
  "valid_create b actor =
     (actor \<noteq> [] \<and>
      (case b_tenantId b of None \<Rightarrow> False | Some v \<Rightarrow> cast_object_id v \<noteq> None) \<and>
      (case b_planId b of None \<Rightarrow> False | Some pid \<Rightarrow> pid \<noteq> []) \<and>
      (case b_tenantType b of None \<Rightarrow> False | Some tty \<Rightarrow> tty \<in> set tenant_types) \<and>
      valid_modules (or_else (b_modules b) []) \<and>
      valid_audit (or_else (b_audit b) []))"

definition createEntitlement :: "store \<Rightarrow> body \<Rightarrow> string \<Rightarrow> time \<Rightarrow> result \<times> store" where
  "createEntitlement s b actor now =
     (case (b_tenantId b, b_tenantType b, b_planId b) of
        (Some v, Some tty, Some pid) \<Rightarrow>
          (case cast_object_id v of
             None \<Rightarrow> (Inl ValidationError, s)
           | Some tid \<Rightarrow>
               if \<not> valid_create b actor then (Inl ValidationError, s)
               else
                 (let doc =
                        \<lparr>tenantId = tid, tenantType = tty, planId = pid,
                         addOns = or_else (b_addOns b) [],
                         modules = or_else (b_modules b) [],
                         quotas = spread default_quotas (strict (or_else (b_quotas b) [])),
                         usage = spread default_usage (strict (or_else (b_usage b) [])),
                         isActive = or_else (b_isActive b) True,
                         effectiveFrom = or_else (b_effectiveFrom b) now,
                         effectiveUntil = or_else (b_effectiveUntil b) None,
                         createdBy = actor, lastModifiedBy = None, version = ''1.0'',
                         md_notes = b_notes b,
                         audit = map (cast_audit now) (or_else (b_audit b) []),
                         createdAt = now, updatedAt = now\<rparr>
                  in case store_insert s doc of
                       Inl err \<Rightarrow> (Inl err, s)
                     | Inr s1 \<Rightarrow>
                         (let (d, s') = addAuditEntry s1 (length s) doc created actor
                                          (BodyChanges b) now
                          in (Inr (EntitlementReply d), s'))))
      | _ \<Rightarrow> (Inl ValidationError, s))"

text \<open>
  \<open>PATCH /entitlements/:id\<close>: \<open>findByIdAndUpdate(id, {...req.body,
  'metadata.lastModifiedBy': userId, updatedAt: new Date()}, {new: true, runValidators:
  true})\<close>, then \<open>addAuditEntry('updated', userId, req.body)\<close> on the updated document.
  Every path the body has is set, the others are kept; a \<open>quotas\<close> or \<open>usage\<close> object of
  the body takes the place of the stored one, and the document read back has the schema
  default for each key the object lacks. The update validators (casts, enums and required
  strings of the paths being set) run before the query is sent; an id that names no
  document gives \<open>null\<close> and the 404; the unique index guards the write.
\<close>

definition apply_body :: "body \<Rightarrow> entitlement \<Rightarrow> time \<Rightarrow> entitlement" where
  "apply_body b e now =
     e\<lparr>tenantId := (case b_tenantId b of
                      None \<Rightarrow> tenantId e
                    | Some v \<Rightarrow> or_else (cast_object_id v) (tenantId e)),
       tenantType := or_else (b_tenantType b) (tenantType e),
       planId := or_else (b_planId b) (planId e),
       addOns := or_else (b_addOns b) (addOns e),
       modules := or_else (b_modules b) (modules e),
       quotas := (case b_quotas b of
                    None \<Rightarrow> quotas e
                  | Some q \<Rightarrow> spread default_quotas (strict q)),
       usage := (case b_usage b of
                   None \<Rightarrow> usage e
                 | Some u \<Rightarrow> spread default_usage (strict u)),
       isActive := or_else (b_isActive b) (isActive e),
       effectiveFrom := or_else (b_effectiveFrom b) (effectiveFrom e),
       effectiveUntil := or_else (b_effectiveUntil b) (effectiveUntil e),
       md_notes := (case b_notes b of None \<Rightarrow> md_notes e | Some n \<Rightarrow> Some n),
       audit := (case b_audit b of None \<Rightarrow> audit e | Some xs \<Rightarrow> map (cast_audit now) xs)\<rparr>"

definition valid_update :: "body \<Rightarrow> bool" where
  "valid_update b =
     ((case b_tenantId b of None \<Rightarrow> True | Some v \<Rightarrow> cast_object_id v \<noteq> None) \<and>
      (case b_planId b of None \<Rightarrow> True | Some pid \<Rightarrow> pid \<noteq> []) \<and>
      (case b_tenantType b of None \<Rightarrow> True | Some tty \<Rightarrow> tty \<in> set tenant_types) \<and>
      (case b_modules b of None \<Rightarrow> True | Some ms \<Rightarrow> valid_modules ms) \<and>
      (case b_audit b of None \<Rightarrow> True | Some xs \<Rightarrow> valid_audit xs))"

definition updateEntitlement ::
  "store \<Rightarrow> nat \<Rightarrow> body \<Rightarrow> string \<Rightarrow> time \<Rightarrow> result \<times> store" where
  "updateEntitlement s i b actor now =
     (if \<not> valid_update b then (Inl ValidationError, s)
      else
        (case findById s i of
           None \<Rightarrow> (Inl (NotFound ''Entitlement not found''), s)
         | Some e \<Rightarrow>
             (let doc = (apply_body b e now)\<lparr>lastModifiedBy := Some actor, updatedAt := now\<rparr>
              in case store_replace s i doc of
                   Inl err \<Rightarrow> (Inl err, s)
                 | Inr s1 \<Rightarrow>
                     (let (d, s') = addAuditEntry s1 i doc updated actor (BodyChanges b) now
                      in (Inr (EntitlementReply d), s')))))"

text \<open>
  \<open>PATCH /entitlements/:id/modules/:moduleName\<close>. The save validates the module as
  patched; a failure is answered with 400 and nothing is written.
\<close>

definition patch_module :: "module_body \<Rightarrow> module \<Rightarrow> module" where
  "patch_module mb m =
     m\<lparr>m_enabled := or_else (mb_enabled mb) (m_enabled m),
       m_features := or_else (mb_features mb) (m_features m),
       m_limits := or_else (mb_limits mb) (m_limits m),
       m_config := or_else (mb_config mb) (m_config m)\<rparr>"

definition setModule ::
  "store \<Rightarrow> nat \<Rightarrow> string \<Rightarrow> module_body \<Rightarrow> string \<Rightarrow> time \<Rightarrow> result \<times> store" where
  "setModule s i moduleName mb actor now =
     (case findById s i of
        None \<Rightarrow> (Inl (NotFound ''Entitlement not found''), s)
      | Some e \<Rightarrow>
          (case findIndex (\<lambda>m. m_name m = moduleName) (modules e) of
             None \<Rightarrow> (Inl (NotFound ''Module not found''), s)
           | Some k \<Rightarrow>
               (let m = patch_module mb (modules e ! k) in
                if \<not> valid_module m then (Inl ValidationError, s)
                else
                  (let (e1, s1) = save s i (e\<lparr>modules := (modules e)[k := m]\<rparr>) now;
                       (e2, s2) = addAuditEntry s1 i e1 updated actor
                                    (ModuleChanges moduleName mb) now
                   in (Inr (ModuleReply m), s2)))))"

text \<open>
  \<open>PATCH /entitlements/:id/modules/:moduleName/features/:featureName\<close>, with the same
  validation of the feature as patched.
\<close>

definition patch_feature :: "feature_body \<Rightarrow> feature \<Rightarrow> feature" where
  "patch_feature fb f =
     f\<lparr>f_enabled := or_else (fb_enabled fb) (f_enabled f),
       f_config := or_else (fb_config fb) (f_config f),
       f_limits := or_else (fb_limits fb) (f_limits f)\<rparr>"

definition setFeature ::
  "store \<Rightarrow> nat \<Rightarrow> string \<Rightarrow> string \<Rightarrow> feature_body \<Rightarrow> string \<Rightarrow> time \<Rightarrow> result \<times> store" where
  "setFeature s i moduleName featureName fb actor now =
     (case findById s i of
        None \<Rightarrow> (Inl (NotFound ''Entitlement not found''), s)
      | Some e \<Rightarrow>
          (case findIndex (\<lambda>m. m_name m = moduleName) (modules e) of
             None \<Rightarrow> (Inl (NotFound ''Module not found''), s)
           | Some k \<Rightarrow>
               (let m = modules e ! k in
                case findIndex (\<lambda>f. f_name f = featureName) (m_features m) of
                  None \<Rightarrow> (Inl (NotFound ''Feature not found''), s)
                | Some j \<Rightarrow>
                    (let f = patch_feature fb (m_features m ! j) in
                     if \<not> valid_feature f then (Inl ValidationError, s)
                     else
                       (let m' = m\<lparr>m_features := (m_features m)[j := f]\<rparr>;
                            (e1, s1) = save s i (e\<lparr>modules := (modules e)[k := m']\<rparr>) now;
                            (e2, s2) = addAuditEntry s1 i e1 updated actor
                                         (FeatureChanges moduleName featureName fb) now
                        in (Inr (FeatureReply f), s2))))))"

text \<open>
  \<open>PATCH /entitlements/:id/quotas\<close>: \<open>entitlement.quotas = {...entitlement.quotas,
  ...req.body}\<close>, of which the strict schema keeps the keys it declares.
\<close>

definition setQuotas :: "store \<Rightarrow> nat \<Rightarrow> int obj \<Rightarrow> string \<Rightarrow> time \<Rightarrow> result \<times> store" where
  "setQuotas s i qb actor now =
     (case findById s i of
        None \<Rightarrow> (Inl (NotFound ''Entitlement not found''), s)
      | Some e \<Rightarrow>
          (let (e1, s1) = save s i (e\<lparr>quotas := strict (spread (quotas e) qb)\<rparr>) now;
               (e2, s2) = addAuditEntry s1 i e1 updated actor (QuotaChanges qb) now
           in (Inr (QuotasReply (quotas e2)), s2)))"

text \<open>
  \<open>POST /entitlements/:id/usage/:resource\<close>. The handler first awaits \<open>findById\<close>; what
  follows works on the document it was given (\<open>recordUsage_loaded\<close>): the check, then
  either the audit entry and the 429 answer, or the increment and the answer. The body's
  \<open>amount\<close> defaults to 1.
\<close>

definition recordUsage_loaded ::
  "store \<Rightarrow> nat \<Rightarrow> entitlement \<Rightarrow> string \<Rightarrow> int option \<Rightarrow> string \<Rightarrow> time \<Rightarrow> result \<times> store" where
  "recordUsage_loaded s i doc resource amt actor now =
     (let amount = or_else amt 1 in
      if \<not> checkQuota doc resource then
        (let (d, s') = addAuditEntry s i doc quota_exceeded actor (UsageChanges resource amount) now
         in (Inl (QuotaExceeded resource (map_of (quotas d) resource) (map_of (usage d) resource)), s'))
      else
        (let (d, s') = incrementUsage s i doc resource amount now
         in (Inr (UsageReply
                   \<lparr>ur_resource = resource,
                    ur_usage = map_of (usage d) resource,
                    ur_quota = map_of (quotas d) resource,
                    ur_remaining = js_minus (map_of (quotas d) resource) (map_of (usage d) resource)\<rparr>),
             s')))"

definition recordUsage ::
  "store \<Rightarrow> nat \<Rightarrow> string \<Rightarrow> int option \<Rightarrow> string \<Rightarrow> time \<Rightarrow> result \<times> store" where
  "recordUsage s i resource amt actor now =
     (case findById s i of
        None \<Rightarrow> (Inl (NotFound ''Entitlement not found''), s)
      | Some doc \<Rightarrow> recordUsage_loaded s i doc resource amt actor now)"

text \<open>\<open>POST /check-permission\<close>\<close>

record permission_request =
  q_tenantId :: string
  q_tenantType :: string
  q_module :: string
  q_feature :: "string option"
  q_action :: "string option"

definition checkPermission :: "store \<Rightarrow> permission_request \<Rightarrow> result \<times> store" where
  "checkPermission s q =
     (case getByTenant s (q_tenantId q) (q_tenantType q) of
        Inl err \<Rightarrow> (Inl err, s)
      | Inr None \<Rightarrow> (Inr NoEntitlementReply, s)
      | Inr (Some e) \<Rightarrow>
          (let me = isModuleEnabled e (q_module q);
               fe = (if truthy (q_feature q)
                     then isFeatureEnabled e (q_module q) (or_else (q_feature q) [])
                     else True)
           in (Inr (PermissionReply
                     \<lparr>hasPermission = (me \<and> fe), pr_module = q_module q,
                      pr_feature = q_feature q, pr_action = q_action q,
                      pr_isModuleEnabled = me, pr_isFeatureEnabled = fe,
                      pr_quota = quotas e, pr_usage = usage e\<rparr>),
               s)))"

section \<open>The public interface as one step function\<close>

datatype call =
    Create body
  | Update nat body
  | SetModule nat string module_body
  | SetFeature nat string string feature_body
  | SetQuotas nat "int obj"
  | RecordUsage nat string "int option"
  | CheckPermission permission_request

fun step :: "store \<Rightarrow> string \<Rightarrow> time \<Rightarrow> call \<Rightarrow> result \<times> store" where
  "step s actor now (Create b) = createEntitlement s b actor now"
| "step s actor now (Update i b) = updateEntitlement s i b actor now"
| "step s actor now (SetModule i mn mb) = setModule s i mn mb actor now"
| "step s actor now (SetFeature i mn fn fb) = setFeature s i mn fn fb actor now"
| "step s actor now (SetQuotas i qb) = setQuotas s i qb actor now"
| "step s actor now (RecordUsage i r amt) = recordUsage s i r amt actor now"
| "step s actor now (CheckPermission q) = checkPermission s q"

text \<open>A run: requests served one after the other, each with its user and its time.\<close>

fun run :: "store \<Rightarrow> (string \<times> time \<times> call) list \<Rightarrow> store" where
  "run s [] = s"
| "run s ((actor, now, c) # cs) = run (snd (step s actor now c)) cs"

section \<open>Properties the interface is checked against\<close>

text \<open>The tenant key of the unique index, and the collection obeying the index.\<close>

definition tenant_key :: "entitlement \<Rightarrow> string \<times> string" where
  "tenant_key e = (tenantId e, tenantType e)"

definition unique_tenants :: "store \<Rightarrow> bool" where
  "unique_tenants s = distinct (map tenant_key s)"

text \<open>The audit sequence of document \<open>i\<close>; a document that does not exist has none.\<close>

definition audit_of :: "store \<Rightarrow> nat \<Rightarrow> audit_entry list" where
  "audit_of s i = (case findById s i of None \<Rightarrow> [] | Some e \<Rightarrow> audit e)"

definition entry :: "audit_action \<Rightarrow> string \<Rightarrow> changes \<Rightarrow> time \<Rightarrow> audit_entry" where
  "entry act by ch now =
     \<lparr>action = act, performedBy = by, changes = ch, reason = [], performedAt = now\<rparr>"




section \<open>Concrete documents and requests\<close>

definition demo_feature :: feature where
  "demo_feature = \<lparr>f_name = ''templates'', f_enabled = True, f_config = [], f_limits = []\<rparr>"

definition demo_module :: module where
  "demo_module =
     \<lparr>m_name = ''forms'', m_enabled = False, m_features = [demo_feature],
      m_limits = [], m_config = []\<rparr>"

definition demo_entitlement :: entitlement where
  "demo_entitlement =
     \<lparr>tenantId = ''507f1f77bcf86cd799439011'', tenantType = ''business'', planId = ''pro'', addOns = [],
      modules = [demo_module],
      quotas = [(''submissions'', 10)], usage = [(''submissions'', 9)],
      isActive = True, effectiveFrom = 0, effectiveUntil = None,
      createdBy = ''root'', lastModifiedBy = None, version = ''1.0'', md_notes = None,
      audit = [], createdAt = 0, updatedAt = 0\<rparr>"

definition empty_body :: body where
  "empty_body =
     \<lparr>b_tenantId = None, b_tenantType = None, b_planId = None, b_addOns = None,
      b_modules = None, b_quotas = None, b_usage = None, b_isActive = None,
      b_effectiveFrom = None, b_effectiveUntil = None, b_notes = None, b_audit = None\<rparr>"

definition demo_body :: body where
  "demo_body =
     empty_body\<lparr>b_tenantId := Some ''507f1f77bcf86cd799439011'', b_tenantType := Some ''business'',
                b_planId := Some ''pro''\<rparr>"

text \<open>
  Two usage requests on the same document and resource whose \<open>findById\<close> both resolve
  before either handler continues; then the first handler runs to its answer, then the
  second, each on the document it was given. Each \<open>await\<close> of the handler is a point
  where the other request may run, so this is one of the schedules of two concurrent
  requests. (A save sends the paths the handler changed; here that is the usage of the
  resource or the audit sequence, and writing the handler's whole document, as \<open>save\<close>
  does, stores the same values for them.)
\<close>

definition recordUsage_raced ::
  "store \<Rightarrow> nat \<Rightarrow> string \<Rightarrow> int option \<Rightarrow> string \<Rightarrow> time \<Rightarrow> int option \<Rightarrow> string \<Rightarrow> time
     \<Rightarrow> result \<times> result \<times> store" where
  "recordUsage_raced s i resource amt1 actor1 now1 amt2 actor2 now2 =
     (case (findById s i, findById s i) of
        (Some doc1, Some doc2) \<Rightarrow>
          (let (r1, s1) = recordUsage_loaded s i doc1 resource amt1 actor1 now1;
               (r2, s2) = recordUsage_loaded s1 i doc2 resource amt2 actor2 now2
           in (r1, r2, s2))
      | _ \<Rightarrow> (Inl (NotFound ''Entitlement not found''), Inl (NotFound ''Entitlement not found''), s))"

section \<open>Lemmas about the helpers\<close>

lemmas handler_defs =
  recordUsage_def recordUsage_loaded_def incrementUsage_def addAuditEntry_def save_def
  checkQuota_def js_or0_def js_minus_def or_else_def findById_def Let_def

lemmas create_defs =
  createEntitlement_def valid_create_def valid_modules_def valid_audit_def tenant_types_def
  tenant_taken_def store_insert_def cast_object_id_def hex_digits_def lower_hex_def
  strict_def resource_names_def demo_body_def empty_body_def spread_def default_quotas_def
  default_usage_def

lemma find_by_key:
  "distinct (map f xs) \<Longrightarrow> find (\<lambda>x. f x = k) xs = Some x \<longleftrightarrow> x \<in> set xs \<and> f x = k"
  by (induction xs) auto

section \<open>Permission evaluation\<close>

text \<open>
  C3. \<open>isFeatureEnabled\<close> is true exactly when the module looked up by name exists and
  is enabled and the feature looked up by name in that module exists and is enabled; a
  module that is found and disabled makes the result false whatever its features say.
  Where module names are unique in the document and feature names in each module (the
  data model's keyed sets), "looked up by name" is plain membership.
\<close>

theorem isFeatureEnabled_iff:
  "(isFeatureEnabled e mn fn \<longleftrightarrow>
      (\<exists>m f. find (\<lambda>m. m_name m = mn) (modules e) = Some m \<and> m_enabled m \<and>
             find (\<lambda>f. f_name f = fn) (m_features m) = Some f \<and> f_enabled f)) \<and>
   (\<forall>m. find (\<lambda>m. m_name m = mn) (modules e) = Some m \<and> \<not> m_enabled m
        \<longrightarrow> \<not> isFeatureEnabled e mn fn) \<and>
   (distinct (map m_name (modules e)) \<and>
    list_all (\<lambda>m. distinct (map f_name (m_features m))) (modules e)
      \<longrightarrow> (isFeatureEnabled e mn fn \<longleftrightarrow>
            (\<exists>m \<in> set (modules e). m_name m = mn \<and> m_enabled m \<and>
               (\<exists>f \<in> set (m_features m). f_name f = fn \<and> f_enabled f))))"
proof (intro conjI)
  show first: "isFeatureEnabled e mn fn \<longleftrightarrow>
      (\<exists>m f. find (\<lambda>m. m_name m = mn) (modules e) = Some m \<and> m_enabled m \<and>
             find (\<lambda>f. f_name f = fn) (m_features m) = Some f \<and> f_enabled f)"
    by (auto simp: isFeatureEnabled_def split: option.splits)
  show "\<forall>m. find (\<lambda>m. m_name m = mn) (modules e) = Some m \<and> \<not> m_enabled m
          \<longrightarrow> \<not> isFeatureEnabled e mn fn"
    by (auto simp: isFeatureEnabled_def split: option.splits)
  show "distinct (map m_name (modules e)) \<and>
        list_all (\<lambda>m. distinct (map f_name (m_features m))) (modules e)
          \<longrightarrow> (isFeatureEnabled e mn fn \<longleftrightarrow>
                (\<exists>m \<in> set (modules e). m_name m = mn \<and> m_enabled m \<and>
                   (\<exists>f \<in> set (m_features m). f_name f = fn \<and> f_enabled f)))"
  proof
    assume d: "distinct (map m_name (modules e)) \<and>
               list_all (\<lambda>m. distinct (map f_name (m_features m))) (modules e)"
    then have dm: "distinct (map m_name (modules e))"
      and df: "\<And>m. m \<in> set (modules e) \<Longrightarrow> distinct (map f_name (m_features m))"
      by (auto simp: list_all_iff)
    show "isFeatureEnabled e mn fn \<longleftrightarrow>
            (\<exists>m \<in> set (modules e). m_name m = mn \<and> m_enabled m \<and>
               (\<exists>f \<in> set (m_features m). f_name f = fn \<and> f_enabled f))"
      unfolding first using find_by_key[OF dm] find_by_key[OF df] by blast
  qed
qed

theorem isFeatureEnabled_iff_witness:
  "find (\<lambda>m. m_name m = ''forms'') (modules demo_entitlement) = Some demo_module \<and>
   \<not> m_enabled demo_module \<and>
   find (\<lambda>f. f_name f = ''templates'') (m_features demo_module) = Some demo_feature \<and>
   f_enabled demo_feature \<and>
   \<not> isFeatureEnabled demo_entitlement ''forms'' ''templates''"
  using isFeatureEnabled_iff[of demo_entitlement "''forms''" "''templates''"]
  by (simp add: demo_entitlement_def demo_module_def demo_feature_def)

text \<open>
  C9. \<open>checkPermission\<close> returns the collection it was given, so no document's usage,
  quotas or audit changes, and asking again on the collection it returned gives the same
  answer.
\<close>

theorem checkPermission_readonly:
  "snd (checkPermission s q) = s \<and>
   fst (checkPermission (snd (checkPermission s q)) q) = fst (checkPermission s q)"
  by (simp add: checkPermission_def Let_def split: sum.splits option.splits)

section \<open>Quota check\<close>

text \<open>
  C7, as the code has it. \<open>checkQuota\<close> is the strict comparison of the usage with the
  quota, a missing key counting as zero (so equal values are exhausted). A resource with
  no quota entry is refused when its usage is not negative; a negative usage is below
  the zero that stands for the missing quota, and the check passes.
\<close>

theorem checkQuota_iff:
  "(checkQuota e r \<longleftrightarrow> or_else (map_of (usage e) r) 0 < or_else (map_of (quotas e) r) 0) \<and>
   (map_of (quotas e) r = None \<and> 0 \<le> or_else (map_of (usage e) r) 0 \<longrightarrow> \<not> checkQuota e r)"
  by (auto simp: checkQuota_def js_or0_def or_else_def Let_def split: option.splits)

theorem checkQuota_iff_witness:
  "map_of (quotas demo_entitlement) ''exports'' = None \<and>
   0 \<le> or_else (map_of (usage demo_entitlement) ''exports'') 0 \<and>
   \<not> checkQuota demo_entitlement ''exports'' \<and>
   checkQuota demo_entitlement ''submissions''"
  using checkQuota_iff[of demo_entitlement "''exports''"]
        checkQuota_iff[of demo_entitlement "''submissions''"]
  by (simp add: demo_entitlement_def or_else_def)

text \<open>
  The claim C7 ends "checkQuota is false for any resource with no quota entry". A
  document with no quota for \<open>submissions\<close> and usage \<open>-1\<close> passes the check.
\<close>

theorem checkQuota_no_quota_counterexample:
  "map_of (quotas (demo_entitlement\<lparr>quotas := [], usage := [(''submissions'', -1)]\<rparr>))
     ''submissions'' = None \<and>
   checkQuota (demo_entitlement\<lparr>quotas := [], usage := [(''submissions'', -1)]\<rparr>) ''submissions''"
  by (simp add: handler_defs demo_entitlement_def)

section \<open>Usage requests\<close>

text \<open>
  C4. On a document whose usage of the resource has reached its quota (missing keys
  counting as zero), \<open>recordUsage\<close> answers \<open>QuotaExceeded\<close> with the document's quota
  and usage of the resource, and the collection differs only in that document: one audit
  entry \<open>quota_exceeded\<close> with the resource and the amount asked for is appended (and
  \<open>updatedAt\<close> stamped by the save); its usage is what it was.
\<close>

theorem recordUsage_exhausted:
  assumes "findById s i = Some e"
    and "or_else (map_of (quotas e) r) 0 \<le> or_else (map_of (usage e) r) 0"
  shows "recordUsage s i r amt actor now =
           (Inl (QuotaExceeded r (map_of (quotas e) r) (map_of (usage e) r)),
            s[i := e\<lparr>audit := audit e @
                       [\<lparr>action = quota_exceeded, performedBy = actor,
                         changes = UsageChanges r (or_else amt 1), reason = [],
                         performedAt = now\<rparr>],
                     updatedAt := now\<rparr>])"
proof -
  have "\<not> checkQuota e r"
    using assms(2)
    by (auto simp: checkQuota_def js_or0_def or_else_def Let_def split: option.splits)
  then show ?thesis
    using assms(1)
    by (simp add: recordUsage_def recordUsage_loaded_def addAuditEntry_def save_def Let_def)
qed

theorem recordUsage_exhausted_witness:
  "findById [demo_entitlement\<lparr>quotas := [(''submissions'', 5)], usage := [(''submissions'', 5)]\<rparr>] 0
     = Some (demo_entitlement\<lparr>quotas := [(''submissions'', 5)], usage := [(''submissions'', 5)]\<rparr>) \<and>
   recordUsage [demo_entitlement\<lparr>quotas := [(''submissions'', 5)], usage := [(''submissions'', 5)]\<rparr>]
       0 ''submissions'' (Some 1) ''alice'' 7 =
     (Inl (QuotaExceeded ''submissions'' (Some 5) (Some 5)),
      [demo_entitlement
         \<lparr>quotas := [(''submissions'', 5)], usage := [(''submissions'', 5)],
          audit := [\<lparr>action = quota_exceeded, performedBy = ''alice'',
                     changes = UsageChanges ''submissions'' 1, reason = [], performedAt = 7\<rparr>],
          updatedAt := 7\<rparr>])"
  using recordUsage_exhausted
          [of "[demo_entitlement\<lparr>quotas := [(''submissions'', 5)], usage := [(''submissions'', 5)]\<rparr>]"
              0 "demo_entitlement\<lparr>quotas := [(''submissions'', 5)], usage := [(''submissions'', 5)]\<rparr>"
              "''submissions''" "Some 1" "''alice''" 7]
  by (simp add: findById_def or_else_def demo_entitlement_def)

text \<open>
  C2. The handler checks \<open>usage < quota\<close> before the increment and never looks at the
  amount: with quota 10 and usage 9 a request for 5 succeeds, the usage becomes 14 and
  the answer reports \<open>remaining = -4\<close>, where the claim has a remaining value that is
  never negative.
\<close>

theorem recordUsage_overshoot:
  "recordUsage [demo_entitlement] 0 ''submissions'' (Some 5) ''alice'' 1 =
     (Inr (UsageReply \<lparr>ur_resource = ''submissions'', ur_usage = Some 14, ur_quota = Some 10,
                       ur_remaining = Some (-4)\<rparr>),
      [demo_entitlement\<lparr>usage := [(''submissions'', 14)], updatedAt := 1\<rparr>])"
  by (simp add: handler_defs demo_entitlement_def)

text \<open>
  C1. With quota 10 and usage 9, two requests for 1 whose reads both come before either
  write both pass the check on the usage 9 they read, both answer success with usage 10
  and remaining 0, and the stored usage ends at 10: no request is refused, where the
  claim has exactly one success and one \<open>QuotaExceeded\<close>.
\<close>

theorem recordUsage_raced_both_succeed:
  "recordUsage_raced [demo_entitlement] 0 ''submissions'' (Some 1) ''alice'' 1 (Some 1) ''bob'' 2 =
     (Inr (UsageReply \<lparr>ur_resource = ''submissions'', ur_usage = Some 10, ur_quota = Some 10,
                       ur_remaining = Some 0\<rparr>),
      Inr (UsageReply \<lparr>ur_resource = ''submissions'', ur_usage = Some 10, ur_quota = Some 10,
                       ur_remaining = Some 0\<rparr>),
      [demo_entitlement\<lparr>usage := [(''submissions'', 10)], updatedAt := 2\<rparr>])"
  by (simp add: recordUsage_raced_def handler_defs demo_entitlement_def)

text \<open>
  What a usage request that passes the check answers: the usage after the increment (the
  usage before, a missing key as zero, plus the amount), the quota, and their difference
  as \<open>remaining\<close>; for an amount of at most 1 the difference is not negative.
\<close>

theorem recordUsage_success_reply:
  assumes "findById s i = Some e" and "checkQuota e r"
  shows "fst (recordUsage s i r amt actor now) =
           Inr (UsageReply
                 \<lparr>ur_resource = r,
                  ur_usage = Some (or_else (map_of (usage e) r) 0 + or_else amt 1),
                  ur_quota = map_of (quotas e) r,
                  ur_remaining =
                    js_minus (map_of (quotas e) r)
                      (Some (or_else (map_of (usage e) r) 0 + or_else amt 1))\<rparr>) \<and>
         (or_else amt 1 \<le> 1 \<longrightarrow>
            0 \<le> or_else (map_of (quotas e) r) 0 - (or_else (map_of (usage e) r) 0 + or_else amt 1))"
  using assms
  by (auto simp: recordUsage_def recordUsage_loaded_def incrementUsage_def save_def Let_def
        update_conv' checkQuota_def js_or0_def or_else_def split: option.splits)

theorem recordUsage_success_reply_witness:
  "findById [demo_entitlement] 0 = Some demo_entitlement \<and>
   checkQuota demo_entitlement ''submissions'' \<and>
   fst (recordUsage [demo_entitlement] 0 ''submissions'' None ''alice'' 1) =
     Inr (UsageReply \<lparr>ur_resource = ''submissions'', ur_usage = Some 10, ur_quota = Some 10,
                       ur_remaining = Some 0\<rparr>)"
  using recordUsage_success_reply[of "[demo_entitlement]" 0 demo_entitlement "''submissions''" None "''alice''" 1]
  by (simp add: handler_defs demo_entitlement_def)

text \<open>
  Served one after the other, two requests for 1 at quota 10 and usage 9 end as the
  interface describes: the first succeeds with usage 10, the second is refused with
  \<open>QuotaExceeded\<close>, and the usage stays 10.
\<close>

theorem recordUsage_in_turn:
  "fst (recordUsage [demo_entitlement] 0 ''submissions'' (Some 1) ''alice'' 1) =
     Inr (UsageReply \<lparr>ur_resource = ''submissions'', ur_usage = Some 10, ur_quota = Some 10,
                       ur_remaining = Some 0\<rparr>) \<and>
   fst (recordUsage (snd (recordUsage [demo_entitlement] 0 ''submissions'' (Some 1) ''alice'' 1))
          0 ''submissions'' (Some 1) ''bob'' 2) =
     Inl (QuotaExceeded ''submissions'' (Some 10) (Some 10)) \<and>
   map_of (usage (snd (recordUsage
                         (snd (recordUsage [demo_entitlement] 0 ''submissions'' (Some 1) ''alice'' 1))
                         0 ''submissions'' (Some 1) ''bob'' 2) ! 0)) ''submissions'' = Some 10"
  by (simp add: handler_defs demo_entitlement_def)

section \<open>Expiring entitlements\<close>

text \<open>
  C10, as the code has it. For a number of days whose future date is a valid date,
  \<open>getExpiringSoon(days)\<close> returns exactly the documents that are active and whose
  \<open>effectiveUntil\<close> is after now and at most the future date, which is now moved by
  \<open>days\<close> days of the server's local calendar (\<open>days\<close> times 24 hours, corrected by the
  change of the zone's offset); for days that lead out of the range of dates, and for
  \<open>NaN\<close>, the query fails in the cast. Where the zone's offset changes by less than a day within the
  window, an active document that ends three times 24 hours from now is in the report
  for 7 days and not in the report for 2.
\<close>

theorem getExpiringSoon_window:
  "(abs (now + d * day_ms + z now d) \<le> max_time \<longrightarrow>
      getExpiringSoon z s (Some d) now =
        Inr (filter (\<lambda>e. isActive e \<and>
                          (\<exists>u. effectiveUntil e = Some u \<and> now < u \<and>
                               u \<le> now + d * day_ms + z now d)) s)) \<and>
   (max_time < abs (now + d * day_ms + z now d) \<longrightarrow>
      getExpiringSoon z s (Some d) now = Inl CastError) \<and>
   getExpiringSoon z s None now = Inl CastError \<and>
   (e \<in> set s \<and> isActive e \<and> effectiveUntil e = Some (now + 3 * day_ms) \<and>
    abs (z now 7) < day_ms \<and> abs (z now 2) < day_ms \<and> abs now + 8 * day_ms \<le> max_time
      \<longrightarrow> (\<exists>r. getExpiringSoon z s (Some 7) now = Inr r \<and> e \<in> set r) \<and>
          (\<exists>r. getExpiringSoon z s (Some 2) now = Inr r \<and> e \<notin> set r))"
proof (intro conjI impI)
  assume "abs (now + d * day_ms + z now d) \<le> max_time"
  then show "getExpiringSoon z s (Some d) now =
        Inr (filter (\<lambda>e. isActive e \<and>
                          (\<exists>u. effectiveUntil e = Some u \<and> now < u \<and>
                               u \<le> now + d * day_ms + z now d)) s)"
    by (auto simp: getExpiringSoon_def setDate_plus_def Let_def split: option.splits
          intro!: filter_cong)
next
  assume "max_time < abs (now + d * day_ms + z now d)"
  then show "getExpiringSoon z s (Some d) now = Inl CastError"
    by (simp add: getExpiringSoon_def setDate_plus_def Let_def)
next
  show "getExpiringSoon z s None now = Inl CastError"
    by (simp add: getExpiringSoon_def)
next
  assume h: "e \<in> set s \<and> isActive e \<and> effectiveUntil e = Some (now + 3 * day_ms) \<and>
    abs (z now 7) < day_ms \<and> abs (z now 2) < day_ms \<and> abs now + 8 * day_ms \<le> max_time"
  then have r7: "abs (now + 7 * day_ms + z now 7) \<le> max_time"
    and r2: "abs (now + 2 * day_ms + z now 2) \<le> max_time"
    by (auto simp: day_ms_def)
  from h r7 show "\<exists>r. getExpiringSoon z s (Some 7) now = Inr r \<and> e \<in> set r"
    by (auto simp: getExpiringSoon_def setDate_plus_def Let_def day_ms_def)
  from h r2 show "\<exists>r. getExpiringSoon z s (Some 2) now = Inr r \<and> e \<notin> set r"
    by (auto simp: getExpiringSoon_def setDate_plus_def Let_def day_ms_def)
qed

theorem getExpiringSoon_window_witness:
  "demo_entitlement\<lparr>effectiveUntil := Some (100 + 3 * day_ms)\<rparr>
     \<in> set [demo_entitlement, demo_entitlement\<lparr>effectiveUntil := Some (100 + 3 * day_ms)\<rparr>] \<and>
   isActive (demo_entitlement\<lparr>effectiveUntil := Some (100 + 3 * day_ms)\<rparr>) \<and>
   abs (fixed_zone 100 7) < day_ms \<and> abs (fixed_zone 100 2) < day_ms \<and>
   abs (100 + 7 * day_ms + fixed_zone 100 7) \<le> max_time \<and>
   getExpiringSoon fixed_zone
       [demo_entitlement, demo_entitlement\<lparr>effectiveUntil := Some (100 + 3 * day_ms)\<rparr>]
       (Some 7) 100 = Inr [demo_entitlement\<lparr>effectiveUntil := Some (100 + 3 * day_ms)\<rparr>] \<and>
   getExpiringSoon fixed_zone
       [demo_entitlement, demo_entitlement\<lparr>effectiveUntil := Some (100 + 3 * day_ms)\<rparr>]
       (Some 2) 100 = Inr []"
  using getExpiringSoon_window
          [of 100 7 fixed_zone
              "[demo_entitlement, demo_entitlement\<lparr>effectiveUntil := Some (100 + 3 * day_ms)\<rparr>]"
              "demo_entitlement\<lparr>effectiveUntil := Some (100 + 3 * day_ms)\<rparr>"]
  by (simp add: getExpiringSoon_def setDate_plus_def fixed_zone_def demo_entitlement_def
        day_ms_def max_time_def)

text \<open>
  The claim C10 has \<open>getExpiringSoon(days)\<close> return the documents of the window for
  every number of days. For 200000000 days the future date lies beyond the last date a
  \<open>Date\<close> holds: the active document that ends three days from now is in the claim's
  window, and the call returns no documents, it fails.
\<close>

theorem getExpiringSoon_out_of_range_counterexample:
  "isActive (demo_entitlement\<lparr>effectiveUntil := Some (1700000000000 + 3 * day_ms)\<rparr>) \<and>
   1700000000000 < 1700000000000 + 3 * day_ms \<and>
   1700000000000 + 3 * day_ms \<le> 1700000000000 + 200000000 * day_ms \<and>
   getExpiringSoon fixed_zone
       [demo_entitlement\<lparr>effectiveUntil := Some (1700000000000 + 3 * day_ms)\<rparr>]
       (Some 200000000) 1700000000000 = Inl CastError"
  by (simp add: getExpiringSoon_def setDate_plus_def fixed_zone_def demo_entitlement_def
        day_ms_def max_time_def)

section \<open>The audit sequence\<close>

text \<open>
  C5. \<open>PATCH /entitlements/:id\<close> spreads the request body into the update, the \<open>audit\<close>
  path with the rest: after a create and an update whose body is \<open>{audit: []}\<close>, both
  successful, the audit sequence holds one entry, the update's, where the claim has two
  entries in call order with the create's entry kept as written.
\<close>

theorem update_overwrites_audit:
  "audit_of (run [] [(''root'', 0, Create demo_body)]) 0 =
     [entry created ''root'' (BodyChanges demo_body) 0] \<and>
   audit_of (run [] [(''root'', 0, Create demo_body),
                     (''root'', 1, Update 0 (empty_body\<lparr>b_audit := Some []\<rparr>))]) 0 =
     [entry updated ''root'' (BodyChanges (empty_body\<lparr>b_audit := Some []\<rparr>)) 1]"
  by (simp add: create_defs handler_defs audit_of_def entry_def updateEntitlement_def
        valid_update_def apply_body_def store_replace_def)

text \<open>
  The other mutating handlers (module, feature and quota changes, usage requests) only
  ever append: the audit sequence of any document after the call starts with the
  sequence before it and is at most one entry longer.
\<close>

theorem siblings_only_append:
  "prefix (audit_of s i) (audit_of (snd (setModule s j mn mb a t)) i) \<and>
   length (audit_of (snd (setModule s j mn mb a t)) i) \<le> Suc (length (audit_of s i)) \<and>
   prefix (audit_of s i) (audit_of (snd (setFeature s j mn fn fb a t)) i) \<and>
   length (audit_of (snd (setFeature s j mn fn fb a t)) i) \<le> Suc (length (audit_of s i)) \<and>
   prefix (audit_of s i) (audit_of (snd (setQuotas s j qb a t)) i) \<and>
   length (audit_of (snd (setQuotas s j qb a t)) i) \<le> Suc (length (audit_of s i)) \<and>
   prefix (audit_of s i) (audit_of (snd (recordUsage s j r amt a t)) i) \<and>
   length (audit_of (snd (recordUsage s j r amt a t)) i) \<le> Suc (length (audit_of s i))"
proof (intro conjI)
  show "prefix (audit_of s i) (audit_of (snd (setModule s j mn mb a t)) i)"
    and "length (audit_of (snd (setModule s j mn mb a t)) i) \<le> Suc (length (audit_of s i))"
    by (auto simp: setModule_def addAuditEntry_def save_def Let_def audit_of_def
          findById_def nth_list_update split: option.splits if_splits)
  show "prefix (audit_of s i) (audit_of (snd (setFeature s j mn fn fb a t)) i)"
    and "length (audit_of (snd (setFeature s j mn fn fb a t)) i) \<le> Suc (length (audit_of s i))"
    by (auto simp: setFeature_def addAuditEntry_def save_def Let_def audit_of_def
          findById_def nth_list_update split: option.splits if_splits)
  show "prefix (audit_of s i) (audit_of (snd (setQuotas s j qb a t)) i)"
    and "length (audit_of (snd (setQuotas s j qb a t)) i) \<le> Suc (length (audit_of s i))"
    by (auto simp: setQuotas_def addAuditEntry_def save_def Let_def audit_of_def
          findById_def nth_list_update split: option.splits if_splits)
  show "prefix (audit_of s i) (audit_of (snd (recordUsage s j r amt a t)) i)"
    and "length (audit_of (snd (recordUsage s j r amt a t)) i) \<le> Suc (length (audit_of s i))"
    by (auto simp: recordUsage_def recordUsage_loaded_def incrementUsage_def addAuditEntry_def
          save_def Let_def audit_of_def findById_def nth_list_update
        split: option.splits if_splits)
qed

section \<open>Usage counters\<close>


















section \<open>Tenant uniqueness\<close>

lemma tenant_taken_iff:
  "tenant_taken docs tid tty \<longleftrightarrow> (tid, tty) \<in> set (map tenant_key docs)"
  by (auto simp: tenant_taken_def tenant_key_def list_ex_iff)

lemma unique_replace_same_key:
  "unique_tenants s \<Longrightarrow> i < length s \<Longrightarrow> tenant_key d = tenant_key (s ! i) \<Longrightarrow>
   unique_tenants (s[i := d])"
  by (simp add: unique_tenants_def map_update list_update_same_conv[THEN iffD2])

lemma unique_replace_free_key:
  assumes "unique_tenants s" "i < length s"
    and "tenant_key d \<notin> set (map tenant_key (take i s @ drop (Suc i) s))"
  shows "unique_tenants (s[i := d])"
proof -
  have s: "s = take i s @ s ! i # drop (Suc i) s"
    using assms(2) by (rule id_take_nth_drop)
  have "distinct (map tenant_key (take i s @ s ! i # drop (Suc i) s))"
    using assms(1) s by (simp add: unique_tenants_def)
  then have "distinct (map tenant_key (take i s @ d # drop (Suc i) s))"
    using assms(3) by auto
  then show ?thesis
    using assms(2) by (simp add: unique_tenants_def upd_conv_take_nth_drop)
qed

lemma unique_create:
  "unique_tenants s \<Longrightarrow> unique_tenants (snd (createEntitlement s b a t))"
  by (auto simp: createEntitlement_def store_insert_def addAuditEntry_def save_def Let_def
        unique_tenants_def tenant_taken_iff tenant_key_def
      split: option.splits)

lemma unique_update:
  assumes "unique_tenants s"
  shows "unique_tenants (snd (updateEntitlement s j b a t))"
proof (cases "findById s j")
  case None
  then show ?thesis using assms by (simp add: updateEntitlement_def)
next
  case (Some e)
  then have j: "j < length s"
    by (auto simp: findById_def split: if_splits)
  define doc where "doc = (apply_body b e t)\<lparr>lastModifiedBy := Some a, updatedAt := t\<rparr>"
  show ?thesis
  proof (cases "\<not> valid_update b \<or> tenant_taken (take j s @ drop (Suc j) s) (tenantId doc) (tenantType doc)")
    case True
    then show ?thesis
      using assms Some by (auto simp: updateEntitlement_def store_replace_def Let_def doc_def)
  next
    case False
    then have free: "tenant_key doc \<notin> set (map tenant_key (take j s @ drop (Suc j) s))"
      by (simp add: tenant_taken_iff tenant_key_def)
    have u1: "unique_tenants (s[j := doc])"
      using assms j free by (rule unique_replace_free_key)
    have "unique_tenants ((s[j := doc])[j := doc\<lparr>audit := audit doc @ [entry updated a (BodyChanges b) t], updatedAt := t\<rparr>])"
      using unique_replace_same_key[of "s[j := doc]" j
              "doc\<lparr>audit := audit doc @ [entry updated a (BodyChanges b) t], updatedAt := t\<rparr>"] u1 j
      by (simp add: tenant_key_def)
    then show ?thesis
      using False Some
      by (simp add: updateEntitlement_def store_replace_def Let_def doc_def addAuditEntry_def
            save_def entry_def)
  qed
qed

lemma unique_setModule:
  assumes "unique_tenants s"
  shows "unique_tenants (snd (setModule s j mn mb a t))"
proof (cases "findById s j")
  case None
  then show ?thesis using assms by (simp add: setModule_def)
next
  case (Some e)
  then have j: "j < length s" and e: "s ! j = e"
    by (auto simp: findById_def split: if_splits)
  have "\<And>d. tenant_key d = tenant_key e \<Longrightarrow> unique_tenants (s[j := d])"
    using assms j e by (auto intro: unique_replace_same_key)
  then show ?thesis
    using assms Some
    by (auto simp: setModule_def addAuditEntry_def save_def Let_def tenant_key_def
        split: option.splits)
qed

lemma unique_setFeature:
  assumes "unique_tenants s"
  shows "unique_tenants (snd (setFeature s j mn fn fb a t))"
proof (cases "findById s j")
  case None
  then show ?thesis using assms by (simp add: setFeature_def)
next
  case (Some e)
  then have j: "j < length s" and e: "s ! j = e"
    by (auto simp: findById_def split: if_splits)
  have "\<And>d. tenant_key d = tenant_key e \<Longrightarrow> unique_tenants (s[j := d])"
    using assms j e by (auto intro: unique_replace_same_key)
  then show ?thesis
    using assms Some
    by (auto simp: setFeature_def addAuditEntry_def save_def Let_def tenant_key_def
        split: option.splits)
qed

lemma unique_setQuotas:
  assumes "unique_tenants s"
  shows "unique_tenants (snd (setQuotas s j qb a t))"
proof (cases "findById s j")
  case None
  then show ?thesis using assms by (simp add: setQuotas_def)
next
  case (Some e)
  then have j: "j < length s" and e: "s ! j = e"
    by (auto simp: findById_def split: if_splits)
  have "\<And>d. tenant_key d = tenant_key e \<Longrightarrow> unique_tenants (s[j := d])"
    using assms j e by (auto intro: unique_replace_same_key)
  then show ?thesis
    using assms Some
    by (auto simp: setQuotas_def addAuditEntry_def save_def Let_def tenant_key_def
        split: option.splits)
qed

lemma unique_recordUsage:
  assumes "unique_tenants s"
  shows "unique_tenants (snd (recordUsage s j r amt a t))"
proof (cases "findById s j")
  case None
  then show ?thesis using assms by (simp add: recordUsage_def)
next
  case (Some e)
  then have j: "j < length s" and e: "s ! j = e"
    by (auto simp: findById_def split: if_splits)
  have "\<And>d. tenant_key d = tenant_key e \<Longrightarrow> unique_tenants (s[j := d])"
    using assms j e by (auto intro: unique_replace_same_key)
  then show ?thesis
    using assms Some
    by (auto simp: recordUsage_def recordUsage_loaded_def incrementUsage_def addAuditEntry_def
          save_def Let_def tenant_key_def
        split: option.splits)
qed

lemma unique_step:
  "unique_tenants s \<Longrightarrow> unique_tenants (snd (step s a t c))"
  by (cases c)
     (simp_all add: unique_create unique_update unique_setModule unique_setFeature
        unique_setQuotas unique_recordUsage checkPermission_def Let_def
      split: sum.splits option.splits)

lemma unique_run:
  "unique_tenants s \<Longrightarrow> unique_tenants (run s cs)"
proof (induction cs arbitrary: s)
  case Nil
  then show ?case by simp
next
  case (Cons x cs)
  obtain a t c where x: "x = (a, t, c)" by (cases x) auto
  show ?case using Cons.IH[OF unique_step[OF Cons.prems, of a t c]] by (simp add: x)
qed

text \<open>
  C8. When a document with the tenant pair of the body (the \<open>tenantId\<close> as cast) is in
  the collection, \<open>createEntitlement\<close> fails and leaves the collection as it was; the
  failure is \<open>DuplicateTenant\<close> for a body that passes the schema validation (a body that
  does not is refused by the validation, which runs before the insert). A collection with
  at most one document per pair keeps that property through every run of calls.
\<close>

theorem create_duplicate_tenant:
  "(b_tenantId b = Some v \<and> cast_object_id v = Some tid \<and> b_tenantType b = Some tty \<and>
    tenant_taken s tid tty
      \<longrightarrow> snd (createEntitlement s b actor now) = s \<and>
          isl (fst (createEntitlement s b actor now)) \<and>
          (valid_create b actor \<longrightarrow> fst (createEntitlement s b actor now) = Inl DuplicateTenant)) \<and>
   (unique_tenants s \<longrightarrow> unique_tenants (run s cs))"
  by (auto simp: createEntitlement_def valid_create_def store_insert_def unique_run
      split: option.splits)

theorem create_duplicate_tenant_witness:
  "b_tenantId demo_body = Some ''507f1f77bcf86cd799439011'' \<and>
   cast_object_id ''507f1f77bcf86cd799439011'' = Some ''507f1f77bcf86cd799439011'' \<and>
   b_tenantType demo_body = Some ''business'' \<and>
   tenant_taken [demo_entitlement] ''507f1f77bcf86cd799439011'' ''business'' \<and>
   valid_create demo_body ''root'' \<and>
   createEntitlement [demo_entitlement] demo_body ''root'' 5 = (Inl DuplicateTenant, [demo_entitlement]) \<and>
   unique_tenants [demo_entitlement] \<and>
   unique_tenants (run [demo_entitlement] [(''root'', 5, Create demo_body)])"
  using create_duplicate_tenant
          [of demo_body "''507f1f77bcf86cd799439011''" "''507f1f77bcf86cd799439011''"
              "''business''" "[demo_entitlement]" "''root''" 5
              "[(''root'', 5, Create demo_body)]"]
  by (simp add: create_defs or_else_def demo_entitlement_def unique_tenants_def tenant_key_def)

end
